theory Spec2Isabelle
  imports Main "HOL-Library.Sublist"
begin

section \<open>JavaScript values and strings\<close>

text \<open>
  A JavaScript string is modelled as a \<^typ>\<open>string\<close>: one \<^typ>\<open>char\<close> per UTF-16 code
  unit, for code units below 256, so that \<open>length\<close> is the source's \<open>.length\<close>.
  Values of type \<open>any\<close> are modelled by \<open>jsval\<close>: \<open>undefined\<close>, \<open>null\<close>, booleans,
  integer-valued numbers, strings, and plain objects (the list of their own properties,
  with \<open>Object.prototype\<close> as prototype, as an object literal or a parsed JSON text has).
\<close>

datatype jsval =
    JUndefined
  | JNull
  | JBool bool
  | JNum int
  | JStr string
  | JObj "(string \<times> jsval) list"

datatype exn = TypeError | SyntaxError | Error string

text \<open>Decimal digits of a number, as a template literal prints a non-negative integer.\<close>

function show_nat :: "nat \<Rightarrow> string" where
  "show_nat n =
     (if n < 10 then [''0123456789'' ! n]
      else show_nat (n div 10) @ [''0123456789'' ! (n mod 10)])"
  by pat_completeness auto
termination
  by (relation "measure (\<lambda>n. n)") auto

declare show_nat.simps [simp del]

definition show_int :: "int \<Rightarrow> string" where
  "show_int i = (if i < 0 then ''-'' @ show_nat (nat (- i)) else show_nat (nat i))"

text \<open>Truthiness of a value (\<open>if (v)\<close>, \<open>!v\<close>, \<open>a && b\<close>, \<open>a || b\<close>).\<close>

fun truthy :: "jsval \<Rightarrow> bool" where
  "truthy JUndefined = False"
| "truthy JNull = False"
| "truthy (JBool b) = b"
| "truthy (JNum n) = (n \<noteq> 0)"
| "truthy (JStr s) = (s \<noteq> [])"
| "truthy (JObj kvs) = True"

text \<open>
  \<open>v.k\<close> for a value that is neither \<open>undefined\<close> nor \<open>null\<close>, and for the property names
  this code reads (\<open>type\<close>, \<open>message\<close>, \<open>name\<close>, \<open>status\<close>, \<open>detail\<close>), which no prototype of a
  primitive or of a plain object defines: the own property, or \<open>undefined\<close>.
\<close>

fun get_prop :: "jsval \<Rightarrow> string \<Rightarrow> jsval" where
  "get_prop (JObj kvs) k = (case map_of kvs k of Some v \<Rightarrow> v | None \<Rightarrow> JUndefined)"
| "get_prop v k = JUndefined"

text \<open>String conversion of a value inside a template literal.\<close>

fun js_to_string :: "jsval \<Rightarrow> string" where
  "js_to_string JUndefined = ''undefined''"
| "js_to_string JNull = ''null''"
| "js_to_string (JBool b) = (if b then ''true'' else ''false'')"
| "js_to_string (JNum n) = show_int n"
| "js_to_string (JStr s) = s"
| "js_to_string (JObj kvs) = ''[object Object]''"

text \<open>
  White space of \<open>String.prototype.trim\<close> among the code units below 256: tab, line feed,
  vertical tab, form feed, carriage return, space and no-break space.
\<close>

definition js_ws :: "char \<Rightarrow> bool" where
  "js_ws c = (c \<in> set [CHR 0x09, CHR 0x0A, CHR 0x0B, CHR 0x0C, CHR 0x0D, CHR 0x20, CHR 0xA0])"

definition trim :: "string \<Rightarrow> string" where
  "trim s = rev (dropWhile js_ws (rev (dropWhile js_ws s)))"

text \<open>\<open>JSON.stringify\<close> on the values of the model; a property whose value is
  \<open>undefined\<close> is left out of its object, and \<open>JSON.stringify(undefined)\<close> is \<open>undefined\<close>
  (here \<open>None\<close>).\<close>

definition hex_digit :: "nat \<Rightarrow> char" where
  "hex_digit d = ''0123456789abcdef'' ! d"

definition json_quote_char :: "char \<Rightarrow> string" where
  "json_quote_char c =
     (if c = CHR 0x22 then [CHR 0x5C, CHR 0x22]
      else if c = CHR 0x5C then [CHR 0x5C, CHR 0x5C]
      else if c = CHR 0x08 then [CHR 0x5C, CHR ''b'']
      else if c = CHR 0x0C then [CHR 0x5C, CHR ''f'']
      else if c = CHR 0x0A then [CHR 0x5C, CHR ''n'']
      else if c = CHR 0x0D then [CHR 0x5C, CHR ''r'']
      else if c = CHR 0x09 then [CHR 0x5C, CHR ''t'']
      else if of_char c < (32 :: nat)
        then [CHR 0x5C, CHR ''u'', CHR ''0'', CHR ''0'',
              hex_digit (of_char c div 16), hex_digit (of_char c mod 16)]
      else [c])"

definition json_quote :: "string \<Rightarrow> string" where
  "json_quote s = [CHR 0x22] @ concat (map json_quote_char s) @ [CHR 0x22]"

fun join_comma :: "string list \<Rightarrow> string" where
  "join_comma [] = []"
| "join_comma [x] = x"
| "join_comma (x # y # ys) = x @ '','' @ join_comma (y # ys)"

fun json_stringify :: "jsval \<Rightarrow> string option"
  and json_members :: "(string \<times> jsval) list \<Rightarrow> string list" where
  "json_stringify JUndefined = None"
| "json_stringify JNull = Some ''null''"
| "json_stringify (JBool b) = Some (if b then ''true'' else ''false'')"
| "json_stringify (JNum n) = Some (show_int n)"
| "json_stringify (JStr s) = Some (json_quote s)"
| "json_stringify (JObj kvs) = Some (''{'' @ join_comma (json_members kvs) @ ''}'')"
| "json_members [] = []"
| "json_members ((k, v) # kvs) =
     (case json_stringify v of
        None \<Rightarrow> json_members kvs
      | Some s \<Rightarrow> (json_quote k @ '':'' @ s) # json_members kvs)"

text \<open>
  \<open>key in obj\<close> for a plain object: an own property, or one inherited from
  \<open>Object.prototype\<close>.
\<close>

definition object_prototype_keys :: "string list" where
  "object_prototype_keys =
     [''constructor'', ''__proto__'', ''hasOwnProperty'', ''isPrototypeOf'',
      ''propertyIsEnumerable'', ''toLocaleString'', ''toString'', ''valueOf'',
      ''__defineGetter__'', ''__defineSetter__'', ''__lookupGetter__'', ''__lookupSetter__'']"

definition js_in :: "string \<Rightarrow> (string \<times> jsval) list \<Rightarrow> bool" where
  "js_in key kvs = (List.member (map fst kvs) key \<or> List.member object_prototype_keys key)"

section \<open>Validation module\<close>

record ValidationResult =
  isValid :: bool
  errors :: "string list"
  warnings :: "string list option"

text \<open>The character class \<open>[<>'"&]\<close>.\<close>

definition special_char :: "char \<Rightarrow> bool" where
  "special_char c = (c \<in> set [CHR ''<'', CHR ''>'', CHR 0x27, CHR 0x22, CHR ''&''])"

text \<open>\<open>validateMessage\<close>: the three checks run one after the other on the same message.\<close>

definition validateMessage :: "string \<Rightarrow> ValidationResult" where
  "validateMessage message =
     (let errors1 = (if message = [] \<or> length (trim message) = 0
                     then [''Message cannot be empty''] else []);
          errors2 = (if length message > 4000
                     then errors1 @
                       [''Message exceeds maximum length of 4000 characters ('' @
                        show_nat (length message) @ '' characters)'']
                     else errors1);
          warnings1 = (if list_ex special_char message
                       then [''Message contains special characters that may be sanitized by the server'']
                       else [])
      in \<lparr> isValid = (length errors2 = 0),
           errors = errors2,
           warnings = (if length warnings1 > 0 then Some warnings1 else None) \<rparr>)"

text \<open>\<open>validateConversationId(id: string | null)\<close>; \<open>None\<close> is \<open>null\<close>. The argument
  is a string, so of \<open>!id || typeof id !== 'string'\<close> only the empty string remains.\<close>

definition validateConversationId :: "string option \<Rightarrow> ValidationResult" where
  "validateConversationId i =
     (case i of
        None \<Rightarrow> \<lparr> isValid = True, errors = [], warnings = None \<rparr>
      | Some s \<Rightarrow>
          (let errors1 = (if s = [] then [''Conversation ID must be a valid string or null'']
                          else if length s > 100
                            then [''Conversation ID exceeds maximum length of 100 characters'']
                          else [])
           in \<lparr> isValid = (length errors1 = 0), errors = errors1, warnings = None \<rparr>))"

text \<open>
  The regular expression of \<open>validateUserId\<close> is anchored at both ends and is a sequence of
  36 character classes; with the flag \<open>i\<close> a letter class matches both cases.
\<close>

definition cls :: "string \<Rightarrow> char \<Rightarrow> bool" where
  "cls cs c = List.member cs c"

definition hexc :: "char \<Rightarrow> bool" where
  "hexc = cls ''0123456789abcdefABCDEF''"

definition dash :: "char \<Rightarrow> bool" where
  "dash = cls ''-''"

fun matches :: "(char \<Rightarrow> bool) list \<Rightarrow> string \<Rightarrow> bool" where
  "matches [] [] = True"
| "matches (p # ps) (c # cs) = (p c \<and> matches ps cs)"
| "matches [] (c # cs) = False"
| "matches (p # ps) [] = False"

definition uuidRegex :: "(char \<Rightarrow> bool) list" where
  "uuidRegex =
     replicate 8 hexc @ [dash] @ replicate 4 hexc @ [dash] @
     [cls ''012345''] @ replicate 3 hexc @ [dash] @
     [cls ''089abAB''] @ replicate 3 hexc @ [dash] @ replicate 12 hexc"

definition validateUserId :: "string \<Rightarrow> ValidationResult" where
  "validateUserId userId =
     (let errors1 = (if userId = [] then [''User ID must be a valid string'']
                     else if length userId > 100
                       then [''User ID exceeds maximum length of 100 characters'']
                     else []);
          errors2 = (if \<not> matches uuidRegex userId
                     then errors1 @ [''User ID must be a valid UUID format'']
                     else errors1)
      in \<lparr> isValid = (length errors2 = 0), errors = errors2, warnings = None \<rparr>)"

text \<open>
  What the specification calls a UUID and a well-formed UUID-v4 string, in the words of
  RFC 4122: five groups of 8, 4, 4, 4 and 12 hexadecimal digits separated by dashes; in
  version 4 the third group starts with \<open>4\<close> and the fourth with \<open>8\<close>, \<open>9\<close>, \<open>a\<close> or \<open>b\<close>.
\<close>

definition is_uuid :: "string \<Rightarrow> bool" where
  "is_uuid s =
     matches (replicate 8 hexc @ [dash] @ replicate 4 hexc @ [dash] @ replicate 4 hexc @
              [dash] @ replicate 4 hexc @ [dash] @ replicate 12 hexc) s"

definition is_uuid_v4 :: "string \<Rightarrow> bool" where
  "is_uuid_v4 s =
     matches (replicate 8 hexc @ [dash] @ replicate 4 hexc @ [dash] @
              [cls ''4''] @ replicate 3 hexc @ [dash] @
              [cls ''89abAB''] @ replicate 3 hexc @ [dash] @ replicate 12 hexc) s"

text \<open>\<open>validateMetadata(metadata: any)\<close>.\<close>

definition forbiddenKeys :: "string list" where
  "forbiddenKeys = [''__proto__'', ''constructor'', ''prototype'']"

fun forbidden_errors :: "string list \<Rightarrow> (string \<times> jsval) list \<Rightarrow> string list" where
  "forbidden_errors [] kvs = []"
| "forbidden_errors (key # keys) kvs =
     (if js_in key kvs
      then (''Metadata cannot contain '' @ [CHR 0x27] @ key @ [CHR 0x27] @ '' key'')
             # forbidden_errors keys kvs
      else forbidden_errors keys kvs)"

fun validateMetadata :: "jsval \<Rightarrow> ValidationResult" where
  "validateMetadata JNull = \<lparr> isValid = True, errors = [], warnings = None \<rparr>"
| "validateMetadata JUndefined = \<lparr> isValid = True, errors = [], warnings = None \<rparr>"
| "validateMetadata (JObj kvs) =
     (let metadataSize = (case json_stringify (JObj kvs) of Some s \<Rightarrow> length s | None \<Rightarrow> 0);
          errors1 = (if metadataSize > 10000
                     then [''Metadata exceeds maximum size of 10KB ('' @
                           show_nat metadataSize @ '' characters)'']
                     else []);
          errors2 = errors1 @ forbidden_errors forbiddenKeys kvs
      in \<lparr> isValid = (length errors2 = 0), errors = errors2, warnings = None \<rparr>)"
| "validateMetadata v =
     \<lparr> isValid = False, errors = [''Metadata must be an object''], warnings = None \<rparr>"

text \<open>
  A chat request: \<open>conversation_id?: string | null\<close> is \<open>None\<close> when the property is
  \<open>undefined\<close>, \<open>Some None\<close> when it is \<open>null\<close>; \<open>metadata?: any\<close> is \<open>JUndefined\<close> when
  absent.
\<close>

record ChatRequest =
  message :: string
  conversation_id :: "string option option"
  metadata :: jsval

definition validateChatRequest :: "ChatRequest \<Rightarrow> ValidationResult" where
  "validateChatRequest request =
     (let messageValidation = validateMessage (message request);
          errors1 = (if \<not> isValid messageValidation then errors messageValidation else []);
          warnings1 = (if \<not> isValid messageValidation
                       then (case warnings messageValidation of Some ws \<Rightarrow> ws | None \<Rightarrow> [])
                       else []);
          errors2 = (case conversation_id request of
                       None \<Rightarrow> errors1
                     | Some i \<Rightarrow>
                         (let conversationValidation = validateConversationId i
                          in if \<not> isValid conversationValidation
                             then errors1 @ errors conversationValidation else errors1));
          errors3 = (if metadata request \<noteq> JUndefined
                     then (let metadataValidation = validateMetadata (metadata request)
                           in if \<not> isValid metadataValidation
                              then errors2 @ errors metadataValidation else errors2)
                     else errors2)
      in \<lparr> isValid = (length errors3 = 0),
           errors = errors3,
           warnings = (if length warnings1 > 0 then Some warnings1 else None) \<rparr>)"

text \<open>\<open>sanitizeMessage\<close>: four global replacements, in the order of the source.\<close>

definition replace_char :: "char \<Rightarrow> string \<Rightarrow> string \<Rightarrow> string" where
  "replace_char c r s = concat (map (\<lambda>x. if x = c then r else [x]) s)"

definition sanitizeMessage :: "string \<Rightarrow> string" where
  "sanitizeMessage msg =
     (let sanitized = filter (\<lambda>c. \<not> (c = CHR ''<'' \<or> c = CHR ''>'')) msg;
          sanitized1 = replace_char (CHR 0x22) ''&quot;'' sanitized;
          sanitized2 = replace_char (CHR 0x27) ''&#39;'' sanitized1;
          sanitized3 = replace_char (CHR ''&'') ''&amp;'' sanitized2
      in sanitized3)"

definition prepareChatRequest :: "ChatRequest \<Rightarrow> ChatRequest \<times> ValidationResult" where
  "prepareChatRequest request =
     (let validation = validateChatRequest request
      in if \<not> isValid validation then (request, validation)
         else (request \<lparr> message := sanitizeMessage (message request) \<rparr>, validation))"

section \<open>Error normaliser\<close>

text \<open>
  A \<open>ChatKitError\<close> is built by \<open>createChatKitError\<close> as an object with the four properties
  \<open>type\<close>, \<open>message\<close>, \<open>status\<close> and \<open>details\<close>, in this order.
\<close>

definition createChatKitError :: "string \<Rightarrow> string \<Rightarrow> jsval \<Rightarrow> jsval \<Rightarrow> jsval" where
  "createChatKitError ty msg st details =
     JObj [(''type'', JStr ty), (''message'', JStr msg), (''status'', st), (''details'', details)]"

text \<open>
  \<open>v.includes('fetch')\<close>: on a string the substring test; on \<open>undefined\<close> and \<open>null\<close> the
  property read throws, and on the other values of the model \<open>includes\<close> is not a function.
\<close>

fun includes_fetch :: "jsval \<Rightarrow> exn + bool" where
  "includes_fetch (JStr s) = Inr (sublist ''fetch'' s)"
| "includes_fetch v = Inl TypeError"

definition handleChatKitError :: "jsval \<Rightarrow> exn + jsval" where
  "handleChatKitError error =
     (if error = JUndefined \<or> error = JNull then Inl TypeError
      else if truthy (get_prop error ''type'') \<and> truthy (get_prop error ''message'')
        then Inr error
      else if get_prop error ''name'' = JStr ''TypeError''
        then Inr (createChatKitError ''network''
                    ''Network connection failed. Please check your internet connection.''
                    JUndefined error)
      else
        (case includes_fetch (get_prop error ''message'') of
           Inl e \<Rightarrow> Inl e
         | Inr True \<Rightarrow>
             Inr (createChatKitError ''network''
                    ''Network connection failed. Please check your internet connection.''
                    JUndefined error)
         | Inr False \<Rightarrow>
             (if truthy (get_prop error ''status'') then
                (if get_prop error ''status'' = JNum 401 then
                   Inr (createChatKitError ''authentication''
                          ''Authentication required. Please sign in to continue.''
                          (JNum 401) error)
                 else if get_prop error ''status'' = JNum 403 then
                   Inr (createChatKitError ''authentication''
                          ''Access denied. Please verify your permissions.''
                          (JNum 403) error)
                 else if get_prop error ''status'' = JNum 422 then
                   Inr (createChatKitError ''validation''
                          ''Invalid request data. Please check your input.''
                          (JNum 422) error)
                 else if get_prop error ''status'' = JNum 429 then
                   Inr (createChatKitError ''server''
                          ''Rate limit exceeded. Please try again later.''
                          (JNum 429) error)
                 else if get_prop error ''status'' \<in> set [JNum 500, JNum 502, JNum 503, JNum 504] then
                   Inr (createChatKitError ''server''
                          ''Service temporarily unavailable. Please try again later.''
                          (get_prop error ''status'') error)
                 else
                   Inr (createChatKitError ''server''
                          (''Server error ('' @ js_to_string (get_prop error ''status'') @
                           ''). Please try again.'')
                          (get_prop error ''status'') error))
              else
                Inr (createChatKitError ''unknown''
                       ''An unexpected error occurred. Please try again.''
                       JUndefined error))))"

section \<open>Browser storage, auth store and conversation cache\<close>

text \<open>
  The conversation cache keeps, under one key of the browser storage, the JSON text of an
  array of records whose fields are strings, so that parsing what was written gives the
  array back. The model keeps what the key parses to: \<open>Absent\<close> when the key is missing or
  empty, \<open>Corrupt\<close> when reading the list from the text throws, \<open>Parsed cs\<close> otherwise.
  An optional field is \<open>None\<close> when the property is absent. \<open>hasWindow\<close> tells whether
  \<open>typeof window !== 'undefined'\<close>; reads and writes of the storage themselves succeed.
\<close>

record ConversationMetadata =
  conv_id :: string
  userId :: string
  title :: "string option"
  createdAt :: string
  updatedAt :: string
  lastMessage :: "string option"

datatype stored = Absent | Corrupt | Parsed "ConversationMetadata list"

record env =
  hasWindow :: bool
  access_token :: "string option"
  user :: "string option"
  chatkit_conversations :: stored
  chatkit_current_conversation :: "string option"

definition getToken :: "env \<Rightarrow> string option" where
  "getToken e = (if \<not> hasWindow e then None else access_token e)"

definition clearAuth :: "env \<Rightarrow> env" where
  "clearAuth e = (if hasWindow e then e \<lparr> access_token := None, user := None \<rparr> else e)"

definition getUserConversations :: "string \<Rightarrow> env \<Rightarrow> ConversationMetadata list" where
  "getUserConversations uid e =
     (if \<not> hasWindow e then []
      else case chatkit_conversations e of
             Absent \<Rightarrow> []
           | Corrupt \<Rightarrow> []
           | Parsed allConversations \<Rightarrow> filter (\<lambda>conv. userId conv = uid) allConversations)"

fun findIndex :: "('a \<Rightarrow> bool) \<Rightarrow> 'a list \<Rightarrow> nat option" where
  "findIndex P [] = None"
| "findIndex P (x # xs) =
     (if P x then Some 0 else map_option Suc (findIndex P xs))"

text \<open>\<open>{...old, ...conversation, updatedAt: now}\<close>: the properties of \<open>conversation\<close> win,
  an absent optional one leaves the old value.\<close>

definition spread_update :: "ConversationMetadata \<Rightarrow> ConversationMetadata \<Rightarrow> string \<Rightarrow> ConversationMetadata" where
  "spread_update old conversation now =
     \<lparr> conv_id = conv_id conversation,
       userId = userId conversation,
       title = (case title conversation of Some t \<Rightarrow> Some t | None \<Rightarrow> title old),
       createdAt = createdAt conversation,
       updatedAt = now,
       lastMessage = (case lastMessage conversation of Some m \<Rightarrow> Some m | None \<Rightarrow> lastMessage old) \<rparr>"

text \<open>\<open>saveConversation\<close>; \<open>t1\<close> and \<open>t2\<close> are the first and the second reading of the clock
  (\<open>new Date().toISOString()\<close>) during the call.\<close>

definition saveConversation :: "string \<Rightarrow> string \<Rightarrow> ConversationMetadata \<Rightarrow> env \<Rightarrow> env" where
  "saveConversation t1 t2 conversation e =
     (if \<not> hasWindow e then e
      else
        (let existing = getUserConversations (userId conversation) e
         in case findIndex (\<lambda>conv. conv_id conv = conv_id conversation) existing of
              Some existingIndex \<Rightarrow>
                e \<lparr> chatkit_conversations :=
                      Parsed (existing [existingIndex :=
                                spread_update (existing ! existingIndex) conversation t1]) \<rparr>
            | None \<Rightarrow>
                e \<lparr> chatkit_conversations :=
                      Parsed (existing @
                        [if createdAt conversation \<noteq> []
                         then conversation \<lparr> updatedAt := t1 \<rparr>
                         else conversation \<lparr> createdAt := t1, updatedAt := t2 \<rparr>]) \<rparr>))"

definition removeConversation :: "string \<Rightarrow> string \<Rightarrow> env \<Rightarrow> env" where
  "removeConversation conversationId uid e =
     (if \<not> hasWindow e then e
      else
        (let existing = getUserConversations uid e;
             filtered = filter (\<lambda>conv. conv_id conv \<noteq> conversationId) existing
         in case chatkit_conversations e of
              Corrupt \<Rightarrow> e
            | Absent \<Rightarrow> e \<lparr> chatkit_conversations := Parsed ([] @ filtered) \<rparr>
            | Parsed allConversations \<Rightarrow>
                e \<lparr> chatkit_conversations :=
                      Parsed (filter (\<lambda>conv. userId conv \<noteq> uid) allConversations @ filtered) \<rparr>))"

definition getCurrentConversationId :: "env \<Rightarrow> string option" where
  "getCurrentConversationId e =
     (if \<not> hasWindow e then None else chatkit_current_conversation e)"

definition setCurrentConversationId :: "string option \<Rightarrow> env \<Rightarrow> env" where
  "setCurrentConversationId conversationId e =
     (if \<not> hasWindow e then e
      else case conversationId of
             Some c \<Rightarrow> (if c \<noteq> [] then e \<lparr> chatkit_current_conversation := Some c \<rparr>
                        else e \<lparr> chatkit_current_conversation := None \<rparr>)
           | None \<Rightarrow> e \<lparr> chatkit_current_conversation := None \<rparr>)"

definition clearUserConversations :: "string \<Rightarrow> env \<Rightarrow> env" where
  "clearUserConversations uid e =
     (if \<not> hasWindow e then e
      else case chatkit_conversations e of
             Corrupt \<Rightarrow> e
           | st \<Rightarrow>
               (let allConversations = (case st of Parsed cs \<Rightarrow> cs | _ \<Rightarrow> []);
                    filtered = filter (\<lambda>conv. userId conv \<noteq> uid) allConversations;
                    e1 = e \<lparr> chatkit_conversations := Parsed filtered \<rparr>
                in case getCurrentConversationId e1 of
                     None \<Rightarrow> e1
                   | Some currentId \<Rightarrow>
                       (if currentId \<noteq> [] then
                          (case find (\<lambda>conv. conv_id conv = currentId \<and> userId conv = uid)
                                  allConversations of
                             Some currentConv \<Rightarrow> setCurrentConversationId None e1
                           | None \<Rightarrow> e1)
                        else e1)))"

section \<open>Request clients\<close>

text \<open>
  The network is the parameter \<open>fetch\<close>: what the call gives for the URL and the headers
  sent, a rejected promise (\<open>NetworkFailure\<close>) or a response with its status and the
  result of reading its body as JSON (\<open>None\<close> when that throws). A client takes the
  environment and returns it with the value returned or the exception thrown.
\<close>

record response =
  status :: nat
  json :: "jsval option"

datatype fetch_result = NetworkFailure | Response response

definition ok :: "response \<Rightarrow> bool" where
  "ok r = (200 \<le> status r \<and> status r \<le> 299)"

type_synonym fetch = "string \<Rightarrow> (string \<times> string) list \<Rightarrow> fetch_result"

text \<open>\<open>ReminderClient.request\<close>; \<open>moreHeaders\<close> are \<open>options.headers\<close>.\<close>

definition request :: "fetch \<Rightarrow> string \<Rightarrow> string \<Rightarrow> (string \<times> string) list \<Rightarrow> env \<Rightarrow> env \<times> (exn + jsval)" where
  "request fetch baseUrl endpoint moreHeaders e =
     (let url = baseUrl @ endpoint;
          token = getToken e;
          headers0 = (''Content-Type'', ''application/json'') # moreHeaders;
          headers = (case token of
                       Some t \<Rightarrow> (if t \<noteq> [] then headers0 @ [(''Authorization'', ''Bearer '' @ t)]
                                  else headers0)
                     | None \<Rightarrow> headers0)
      in case fetch url headers of
           NetworkFailure \<Rightarrow> (e, Inl TypeError)
         | Response r \<Rightarrow>
             (if \<not> ok r then
                (if status r = 401
                 then (clearAuth e, Inl (Error ''Authentication failed. Please log in again.''))
                 else
                   (let errorData = (case json r of Some d \<Rightarrow> d | None \<Rightarrow> JObj [])
                    in if errorData = JNull \<or> errorData = JUndefined then (e, Inl TypeError)
                       else if truthy (get_prop errorData ''detail'')
                         then (e, Inl (Error (js_to_string (get_prop errorData ''detail''))))
                       else (e, Inl (Error (''HTTP error! status: '' @ show_nat (status r))))))
              else (case json r of
                      Some d \<Rightarrow> (e, Inr d)
                    | None \<Rightarrow> (e, Inl SyntaxError))))"

text \<open>\<open>ChatAPIClient.sendMessage\<close>.\<close>

definition sendMessage :: "fetch \<Rightarrow> string \<Rightarrow> string \<Rightarrow> env \<Rightarrow> env \<times> (exn + jsval)" where
  "sendMessage fetch baseUrl uid e =
     (let token = (case getToken e of Some t \<Rightarrow> t | None \<Rightarrow> [])
      in case fetch (baseUrl @ ''/api/'' @ uid @ ''/chat'')
                [(''Content-Type'', ''application/json''), (''Authorization'', ''Bearer '' @ token)] of
           NetworkFailure \<Rightarrow> (e, Inl TypeError)
         | Response r \<Rightarrow>
             (if \<not> ok r
              then (e, Inl (Error (''HTTP error! status: '' @ show_nat (status r))))
              else (case json r of
                      Some d \<Rightarrow> (e, Inr d)
                    | None \<Rightarrow> (e, Inl SyntaxError))))"

section \<open>Example states\<close>

text \<open>A store with one conversation of \<open>alice\<close> and one of \<open>bob\<close>, the current
  conversation being the one of \<open>alice\<close>.\<close>

definition example_conversation :: "string \<Rightarrow> string \<Rightarrow> ConversationMetadata" where
  "example_conversation i u =
     \<lparr> conv_id = i, userId = u, title = Some ''Chat'',
       createdAt = ''2025-01-01T00:00:00.000Z'', updatedAt = ''2025-01-01T00:00:00.000Z'',
       lastMessage = None \<rparr>"

definition example_env :: env where
  "example_env =
     \<lparr> hasWindow = True, access_token = Some ''jwt'', user = Some ''alice'',
       chatkit_conversations =
         Parsed [example_conversation ''c1'' ''alice'', example_conversation ''c2'' ''bob''],
       chatkit_current_conversation = Some ''c1'' \<rparr>"

definition example_request :: "string option option \<Rightarrow> ChatRequest" where
  "example_request i =
     \<lparr> message = [CHR ''<'', CHR ''>'', CHR ''&'', CHR 0x27, CHR 0x22],
       conversation_id = i, metadata = JUndefined \<rparr>"

section \<open>Properties of the validation module\<close>

lemma show_nat_4001: "show_nat 4001 = ''4001''"
  by code_simp

lemma validateMessage_isValid:
  "isValid (validateMessage m) = (trim m \<noteq> [] \<and> length m \<le> 4000)"
  by (auto simp: validateMessage_def Let_def trim_def)

lemma empty_error_without_4001: "\<not> sublist ''4001'' ''Message cannot be empty''"
  by code_simp

lemma length_error_with_4001:
  "sublist ''4001'' ''Message exceeds maximum length of 4000 characters (4001 characters)''"
  by code_simp

text \<open>
  C10. Every result returned by \<open>validateMessage\<close>, \<open>validateConversationId\<close>,
  \<open>validateUserId\<close>, \<open>validateMetadata\<close> and \<open>validateChatRequest\<close> has \<open>isValid\<close> true
  if and only if its list of errors is empty.
\<close>

theorem validators_isValid_iff_no_errors:
  "(isValid (validateMessage m) = (errors (validateMessage m) = [])) \<and>
   (isValid (validateConversationId i) = (errors (validateConversationId i) = [])) \<and>
   (isValid (validateUserId u) = (errors (validateUserId u) = [])) \<and>
   (isValid (validateMetadata v) = (errors (validateMetadata v) = [])) \<and>
   (isValid (validateChatRequest r) = (errors (validateChatRequest r) = []))"
proof -
  have msg: "isValid (validateMessage m) = (errors (validateMessage m) = [])"
    by (simp add: validateMessage_def Let_def)
  have cid: "isValid (validateConversationId i) = (errors (validateConversationId i) = [])"
    by (simp add: validateConversationId_def Let_def split: option.splits)
  have uid: "isValid (validateUserId u) = (errors (validateUserId u) = [])"
    by (simp add: validateUserId_def Let_def)
  have meta: "isValid (validateMetadata v) = (errors (validateMetadata v) = [])"
    by (cases v) (simp_all add: Let_def)
  have req: "isValid (validateChatRequest r) = (errors (validateChatRequest r) = [])"
    by (simp add: validateChatRequest_def Let_def)
  from msg cid uid meta req show ?thesis by blast
qed

text \<open>
  C6, as stated, fails: the empty message has length at most 4000 and none of the
  characters \<open><>'"&\<close>, and \<open>validateMessage\<close> rejects it.
\<close>

theorem validateMessage_blank_counterexample:
  "length ([] :: string) \<le> 4000 \<and> \<not> list_ex special_char [] \<and>
   \<not> isValid (validateMessage [])"
  by (simp add: validateMessage_def Let_def trim_def)

text \<open>
  C6, amended. \<open>validateMessage\<close> accepts exactly the messages that are not blank (their
  \<open>trim()\<close> is not empty) and have at most 4000 characters, whether or not they contain
  one of the characters \<open><>'"&\<close>, and for these the list of errors is empty; the empty
  message and the message of three spaces are rejected with a non-empty list of errors;
  and for a message of 4001 characters exactly one error contains \<open>4001\<close>, the one on the
  length.
\<close>

theorem validateMessage_accepts_nonblank_bounded:
  "(isValid (validateMessage m) = (trim m \<noteq> [] \<and> length m \<le> 4000)) \<and>
   (trim m \<noteq> [] \<and> length m \<le> 4000 \<longrightarrow> errors (validateMessage m) = []) \<and>
   \<not> isValid (validateMessage []) \<and> errors (validateMessage []) \<noteq> [] \<and>
   \<not> isValid (validateMessage ''   '') \<and> errors (validateMessage ''   '') \<noteq> [] \<and>
   (length m = 4001 \<longrightarrow>
      filter (sublist ''4001'') (errors (validateMessage m)) =
        [''Message exceeds maximum length of 4000 characters (4001 characters)''])"
proof -
  have accepted: "isValid (validateMessage m) = (trim m \<noteq> [] \<and> length m \<le> 4000)"
    by (rule validateMessage_isValid)
  have no_errors: "trim m \<noteq> [] \<and> length m \<le> 4000 \<longrightarrow> errors (validateMessage m) = []"
    by (auto simp: validateMessage_def Let_def trim_def)
  have empty: "\<not> isValid (validateMessage []) \<and> errors (validateMessage []) \<noteq> []"
    by (simp add: validateMessage_def Let_def trim_def)
  have spaces: "\<not> isValid (validateMessage ''   '') \<and> errors (validateMessage ''   '') \<noteq> []"
    by (simp add: validateMessage_def Let_def trim_def js_ws_def)
  have too_long: "length m = 4001 \<longrightarrow>
      filter (sublist ''4001'') (errors (validateMessage m)) =
        [''Message exceeds maximum length of 4000 characters (4001 characters)'']"
    using empty_error_without_4001 length_error_with_4001 show_nat_4001
    by (simp add: validateMessage_def Let_def)
  from accepted no_errors empty spaces too_long show ?thesis by blast
qed

theorem validateMessage_accepts_nonblank_bounded_witness:
  "trim ''hello'' \<noteq> [] \<and> length ''hello'' \<le> 4000 \<and>
   isValid (validateMessage ''hello'') \<and> errors (validateMessage ''hello'') = [] \<and>
   length (replicate 4001 (CHR ''a'')) = 4001 \<and>
   filter (sublist ''4001'') (errors (validateMessage (replicate 4001 (CHR ''a'')))) =
     [''Message exceeds maximum length of 4000 characters (4001 characters)'']"
proof -
  have h1: "trim ''hello'' \<noteq> [] \<and> length ''hello'' \<le> 4000"
    by (simp add: trim_def js_ws_def)
  have h2: "length (replicate 4001 (CHR ''a'')) = 4001"
    by (simp only: length_replicate)
  from h1 validateMessage_accepts_nonblank_bounded [of "''hello''"]
  have r1: "isValid (validateMessage ''hello'') \<and> errors (validateMessage ''hello'') = []"
    by blast
  from h2 validateMessage_accepts_nonblank_bounded [of "replicate 4001 (CHR ''a'')"]
  have r2: "filter (sublist ''4001'') (errors (validateMessage (replicate 4001 (CHR ''a'')))) =
      [''Message exceeds maximum length of 4000 characters (4001 characters)'']"
    by blast
  from h1 h2 r1 r2 show ?thesis by blast
qed

text \<open>
  C5 at the request \<open>{message: "Tom & Jerry"}\<close>: the message is valid and
  \<open>validateMessage\<close> warns about its special character, and \<open>validateChatRequest\<close>, which
  copies the warnings of the message only inside the branch of an invalid message,
  returns no warnings.
\<close>

theorem validateChatRequest_loses_warning_of_valid_message:
  "warnings (validateMessage ''Tom & Jerry'') =
     Some [''Message contains special characters that may be sanitized by the server''] \<and>
   isValid (validateMessage ''Tom & Jerry'') \<and>
   warnings (validateChatRequest
     \<lparr> message = ''Tom & Jerry'', conversation_id = None, metadata = JUndefined \<rparr>) = None"
  by (simp add: validateChatRequest_def validateMessage_def Let_def trim_def js_ws_def
      special_char_def)

subsection \<open>Chat requests\<close>

lemma push_if_invalid:
  "isValid v = (errors v = []) \<Longrightarrow>
   (if \<not> isValid v then xs @ errors v else xs) = xs @ errors v"
  by auto

text \<open>The errors of \<open>validateChatRequest\<close> are those of the sub-validators that run, in
  their order: no validator is skipped because an earlier one failed.\<close>

lemma validateChatRequest_errors_concat:
  "errors (validateChatRequest r) =
     errors (validateMessage (message r)) @
     (case conversation_id r of None \<Rightarrow> [] | Some i \<Rightarrow> errors (validateConversationId i)) @
     (if metadata r \<noteq> JUndefined then errors (validateMetadata (metadata r)) else [])"
proof -
  have m: "(if \<not> isValid (validateMessage (message r))
            then errors (validateMessage (message r)) else []) =
           errors (validateMessage (message r))"
    by (simp add: validateMessage_def Let_def)
  have c: "(if \<not> isValid (validateConversationId i) then xs @ errors (validateConversationId i)
            else xs) = xs @ errors (validateConversationId i)" for i xs
    by (rule push_if_invalid) (simp add: validateConversationId_def Let_def split: option.splits)
  have d: "(if \<not> isValid (validateMetadata v) then xs @ errors (validateMetadata v)
            else xs) = xs @ errors (validateMetadata v)" for v xs
    by (rule push_if_invalid) (cases v; simp add: Let_def)
  show ?thesis
    by (cases "conversation_id r") (simp_all add: validateChatRequest_def Let_def m c d)
qed

text \<open>\<open>'constructor' in metadata\<close> and \<open>'__proto__' in metadata\<close> hold for every plain
  object, through its prototype, so that \<open>validateMetadata\<close> accepts no plain object.\<close>

lemma validateMetadata_rejects_plain_objects: "\<not> isValid (validateMetadata (JObj kvs))"
  by (simp add: Let_def forbiddenKeys_def js_in_def object_prototype_keys_def)

subsection \<open>User ids\<close>

lemma matches_length: "matches ps s \<Longrightarrow> length s = length ps"
  by (induction ps s rule: matches.induct) auto

lemma matches_mono:
  "list_all2 (\<lambda>p q. \<forall>c. p c \<longrightarrow> q c) ps qs \<Longrightarrow> matches ps s \<Longrightarrow> matches qs s"
proof (induction arbitrary: s rule: list_all2_induct)
  case Nil
  then show ?case by simp
next
  case (Cons p ps q qs)
  then show ?case by (cases s) auto
qed

lemma uuid_v4_matches_uuidRegex: "is_uuid_v4 s \<Longrightarrow> matches uuidRegex s"
  unfolding is_uuid_v4_def uuidRegex_def
  by (erule matches_mono [rotated]) (simp add: eval_nat_numeral cls_def)

lemma uuidRegex_matches_uuid_only: "matches uuidRegex s \<Longrightarrow> is_uuid s"
  unfolding is_uuid_def uuidRegex_def
  by (erule matches_mono [rotated]) (simp add: eval_nat_numeral cls_def hexc_def)

lemma uuidRegex_length: "matches uuidRegex s \<Longrightarrow> length s = 36"
  by (drule matches_length) (simp add: uuidRegex_def)

text \<open>
  C7. \<open>validateUserId\<close> returns \<open>isValid = true\<close> for every well-formed UUID-v4 string, and
  \<open>isValid = false\<close> for every string that is not a UUID and for every string of more
  than 100 characters.
\<close>

theorem validateUserId_accepts_uuid_v4_rejects_others:
  "(is_uuid_v4 s \<longrightarrow> isValid (validateUserId s)) \<and>
   (\<not> is_uuid s \<longrightarrow> \<not> isValid (validateUserId s)) \<and>
   (length s > 100 \<longrightarrow> \<not> isValid (validateUserId s))"
proof -
  have accepted: "is_uuid_v4 s \<longrightarrow> isValid (validateUserId s)"
  proof
    assume "is_uuid_v4 s"
    then have m: "matches uuidRegex s" by (rule uuid_v4_matches_uuidRegex)
    then have "length s = 36" by (rule uuidRegex_length)
    with m show "isValid (validateUserId s)"
      by (auto simp: validateUserId_def Let_def)
  qed
  have not_uuid: "\<not> is_uuid s \<longrightarrow> \<not> isValid (validateUserId s)"
    using uuidRegex_matches_uuid_only [of s] by (auto simp: validateUserId_def Let_def)
  have too_long: "length s > 100 \<longrightarrow> \<not> isValid (validateUserId s)"
    by (auto simp: validateUserId_def Let_def)
  from accepted not_uuid too_long show ?thesis by blast
qed

theorem validateUserId_accepts_uuid_v4_rejects_others_witness:
  "is_uuid_v4 ''123e4567-e89b-42d3-a456-426614174000'' \<and>
   isValid (validateUserId ''123e4567-e89b-42d3-a456-426614174000'') \<and>
   \<not> is_uuid ''not-a-uuid'' \<and> \<not> isValid (validateUserId ''not-a-uuid'') \<and>
   length (replicate 101 (CHR ''a'')) > 100 \<and>
   \<not> isValid (validateUserId (replicate 101 (CHR ''a'')))"
proof -
  have h1: "is_uuid_v4 ''123e4567-e89b-42d3-a456-426614174000''"
    by (simp add: is_uuid_v4_def eval_nat_numeral cls_def hexc_def dash_def)
  have h2: "\<not> is_uuid ''not-a-uuid''"
    by (simp add: is_uuid_def eval_nat_numeral cls_def hexc_def dash_def)
  have h3: "length (replicate 101 (CHR ''a'')) > 100"
    by simp
  from h1 validateUserId_accepts_uuid_v4_rejects_others
    [of "''123e4567-e89b-42d3-a456-426614174000''"]
  have r1: "isValid (validateUserId ''123e4567-e89b-42d3-a456-426614174000'')" by blast
  from h2 validateUserId_accepts_uuid_v4_rejects_others [of "''not-a-uuid''"]
  have r2: "\<not> isValid (validateUserId ''not-a-uuid'')" by blast
  from h3 validateUserId_accepts_uuid_v4_rejects_others [of "replicate 101 (CHR ''a'')"]
  have r3: "\<not> isValid (validateUserId (replicate 101 (CHR ''a'')))" by blast
  from h1 h2 h3 r1 r2 r3 show ?thesis by blast
qed

subsection \<open>Sanitising\<close>

lemma set_replace_char:
  "set (replace_char c r s) = (set s - {c}) \<union> (if c \<in> set s then set r else {})"
  by (induction s) (auto simp: replace_char_def)

lemma sanitizeMessage_removes:
  "set (sanitizeMessage m) \<inter> {CHR ''<'', CHR ''>'', CHR 0x22, CHR 0x27} = {}"
  by (auto simp: sanitizeMessage_def Let_def set_replace_char split: if_splits)

text \<open>The ampersand is replaced last, so the ampersands of the two entities written for
  the quotes are escaped again.\<close>

lemma sanitizeMessage_escapes_entities_again:
  "sanitizeMessage [CHR ''<'', CHR ''>'', CHR ''&'', CHR 0x27, CHR 0x22] =
     ''&amp;&amp;#39;&amp;quot;''"
  by (simp add: sanitizeMessage_def replace_char_def)

text \<open>
  \<open>prepareChatRequest\<close> validates first: a request that \<open>validateChatRequest\<close> accepts is
  returned with its message replaced by \<open>sanitizeMessage(message)\<close>, which contains none
  of the raw characters \<open><\<close>, \<open>>\<close>, \<open>"\<close> and \<open>'\<close>; a request that fails validation is
  returned unchanged; in both cases the validation result is the one of
  \<open>validateChatRequest\<close>.
\<close>

lemma prepareChatRequest_sanitizes_valid_request:
  "(isValid (validateChatRequest r) \<longrightarrow>
     fst (prepareChatRequest r) = r \<lparr> message := sanitizeMessage (message r) \<rparr> \<and>
     \<not> list_ex (\<lambda>c. c \<in> set [CHR ''<'', CHR ''>'', CHR 0x22, CHR 0x27])
          (message (fst (prepareChatRequest r)))) \<and>
   (\<not> isValid (validateChatRequest r) \<longrightarrow> fst (prepareChatRequest r) = r) \<and>
   snd (prepareChatRequest r) = validateChatRequest r"
  using sanitizeMessage_removes [of "message r"]
  by (auto simp: prepareChatRequest_def Let_def list_ex_iff)

lemma example_request_valid: "isValid (validateChatRequest (example_request None))"
  by (simp add: example_request_def validateChatRequest_def validateMessage_def Let_def
      trim_def js_ws_def)

lemma escaped_twice_without_quot: "\<not> sublist ''&quot;'' ''&amp;&amp;#39;&amp;quot;''"
  by code_simp

lemma escaped_twice_without_apos: "\<not> sublist ''&#39;'' ''&amp;&amp;#39;&amp;quot;''"
  by code_simp

text \<open>
  C2 at the request \<open>{message: "<>&'\""}\<close>, whose message is the five characters
  \<open><\<close>, \<open>>\<close>, \<open>&\<close>, \<open>'\<close>, \<open>"\<close>: the request is valid and \<open>prepareChatRequest\<close> returns the
  message \<open>&amp;&amp;#39;&amp;quot;\<close>. The angle brackets are gone and \<open>&\<close> has become
  \<open>&amp;\<close>, but \<open>sanitizeMessage\<close> replaces \<open>&\<close> after it has written \<open>&quot;\<close> and
  \<open>&#39;\<close>, so the \<open>&\<close> of these two entities is escaped again: neither \<open>&quot;\<close> nor
  \<open>&#39;\<close> occurs in the message returned.
\<close>

theorem prepareChatRequest_escapes_quote_entities_twice:
  "isValid (validateChatRequest (example_request None)) \<and>
   message (example_request None) = [CHR ''<'', CHR ''>'', CHR ''&'', CHR 0x27, CHR 0x22] \<and>
   message (fst (prepareChatRequest (example_request None))) = ''&amp;&amp;#39;&amp;quot;'' \<and>
   \<not> sublist ''&quot;'' (message (fst (prepareChatRequest (example_request None)))) \<and>
   \<not> sublist ''&#39;'' (message (fst (prepareChatRequest (example_request None))))"
proof -
  have input: "message (example_request None) =
      [CHR ''<'', CHR ''>'', CHR ''&'', CHR 0x27, CHR 0x22]"
    by (simp add: example_request_def)
  have "message (fst (prepareChatRequest (example_request None))) =
      sanitizeMessage (message (example_request None))"
    using example_request_valid by (simp add: prepareChatRequest_def Let_def)
  with input have out:
    "message (fst (prepareChatRequest (example_request None))) = ''&amp;&amp;#39;&amp;quot;''"
    by (simp only: sanitizeMessage_escapes_entities_again)
  have no_quot: "\<not> sublist ''&quot;'' (message (fst (prepareChatRequest (example_request None))))"
    unfolding out by (rule escaped_twice_without_quot)
  have no_apos: "\<not> sublist ''&#39;'' (message (fst (prepareChatRequest (example_request None))))"
    unfolding out by (rule escaped_twice_without_apos)
  from example_request_valid input out no_quot no_apos show ?thesis
    by (intro conjI)
qed

section \<open>Properties of the error normaliser\<close>

lemma handleChatKitError_passes_through:
  "truthy (get_prop e ''type'') \<Longrightarrow> truthy (get_prop e ''message'') \<Longrightarrow>
   handleChatKitError e = Inr e"
  by (cases e) (simp_all add: handleChatKitError_def)

lemma createChatKitError_truthy:
  "truthy (get_prop (createChatKitError (t # ty) (m # msg) st d) ''type'') \<and>
   truthy (get_prop (createChatKitError (t # ty) (m # msg) st d) ''message'')"
  by (simp add: createChatKitError_def)

lemma handleChatKitError_result:
  "handleChatKitError e = Inr r \<Longrightarrow>
   r = e \<and> truthy (get_prop e ''type'') \<and> truthy (get_prop e ''message'') \<or>
   (\<exists>t ty m msg st. r = createChatKitError (t # ty) (m # msg) st e)"
  unfolding handleChatKitError_def
  by (simp split: if_splits sum.splits bool.splits) blast+

text \<open>What \<open>handleChatKitError\<close> returns, it returns unchanged when given it again.\<close>

lemma handleChatKitError_idempotent:
  assumes "handleChatKitError e = Inr r"
  shows "handleChatKitError r = Inr r"
proof -
  from handleChatKitError_result [OF assms]
  have "truthy (get_prop r ''type'') \<and> truthy (get_prop r ''message'')"
    using createChatKitError_truthy by auto
  then show ?thesis by (simp add: handleChatKitError_passes_through)
qed

lemma handleChatKitError_TypeError_name:
  "handleChatKitError (JObj [(''name'', JStr ''TypeError'')]) =
     Inr (createChatKitError ''network''
            ''Network connection failed. Please check your internet connection.''
            JUndefined (JObj [(''name'', JStr ''TypeError'')]))"
  by (simp add: handleChatKitError_def)

text \<open>With a message that is a string, the table of statuses is reached.\<close>

lemma handleChatKitError_status_with_message:
  "handleChatKitError (JObj [(''status'', JNum 401), (''message'', JStr [])]) =
     Inr (createChatKitError ''authentication''
            ''Authentication required. Please sign in to continue.'' (JNum 401)
            (JObj [(''status'', JNum 401), (''message'', JStr [])]))"
  by (simp add: handleChatKitError_def)

text \<open>
  C1 at the inputs \<open>{status: 401}\<close> and \<open>{status: 500}\<close>: the object has no \<open>type\<close> and
  its \<open>name\<close> is not \<open>TypeError\<close>, so \<open>error.message.includes('fetch')\<close> is evaluated
  with \<open>error.message\<close> undefined, and the call throws a \<open>TypeError\<close> before the table of
  statuses is reached.
\<close>

theorem handleChatKitError_status_only_throws:
  "handleChatKitError (JObj [(''status'', JNum 401)]) = Inl TypeError \<and>
   handleChatKitError (JObj [(''status'', JNum 500)]) = Inl TypeError"
  by (simp add: handleChatKitError_def)

section \<open>Properties of the conversation cache\<close>

lemma findIndex_None: "(findIndex P xs = None) = (\<forall>x\<in>set xs. \<not> P x)"
  by (induction xs) auto

lemma findIndex_Some: "findIndex P xs = Some i \<Longrightarrow> i < length xs \<and> P (xs ! i)"
  by (induction xs arbitrary: i) (auto split: if_splits)

lemma filter_update_out:
  "i < length xs \<Longrightarrow> \<not> Q (xs ! i) \<Longrightarrow> \<not> Q y \<Longrightarrow> filter Q (xs [i := y]) = filter Q xs"
  by (induction xs arbitrary: i) (auto split: nat.splits)

lemma getUserConversations_owner:
  "r \<in> set (getUserConversations u e) \<Longrightarrow> userId r = u"
  by (auto simp: getUserConversations_def split: if_splits stored.splits)

lemma getUserConversations_Parsed:
  "hasWindow e \<Longrightarrow> chatkit_conversations e = Parsed cs \<Longrightarrow>
   getUserConversations u e = filter (\<lambda>conv. userId conv = u) cs"
  by (simp add: getUserConversations_def)

lemma saveConversation_hasWindow: "hasWindow (saveConversation t1 t2 c e) = hasWindow e"
  by (simp add: saveConversation_def Let_def split: option.splits)

lemma saveConversation_stored:
  "hasWindow e \<Longrightarrow>
   chatkit_conversations (saveConversation t1 t2 c e) =
     Parsed (case findIndex (\<lambda>conv. conv_id conv = conv_id c)
                   (getUserConversations (userId c) e) of
        Some i \<Rightarrow>
          (getUserConversations (userId c) e)
            [i := spread_update (getUserConversations (userId c) e ! i) c t1]
      | None \<Rightarrow>
          getUserConversations (userId c) e @
            [if createdAt c \<noteq> [] then c \<lparr> updatedAt := t1 \<rparr>
             else c \<lparr> createdAt := t1, updatedAt := t2 \<rparr>])"
  by (simp add: saveConversation_def Let_def split: option.splits)

lemma saveConversation_all_owner:
  assumes "hasWindow e"
    and "chatkit_conversations (saveConversation t1 t2 c e) = Parsed cs'"
    and "r \<in> set cs'"
  shows "userId r = userId c"
proof (cases "findIndex (\<lambda>conv. conv_id conv = conv_id c) (getUserConversations (userId c) e)")
  case None
  with assms saveConversation_stored [OF assms(1), of t1 t2 c] show ?thesis
    by (auto dest: getUserConversations_owner split: if_splits)
next
  case (Some i)
  with assms saveConversation_stored [OF assms(1), of t1 t2 c]
  have "r \<in> set ((getUserConversations (userId c) e)
           [i := spread_update (getUserConversations (userId c) e ! i) c t1])"
    by simp
  then have "r = spread_update (getUserConversations (userId c) e ! i) c t1 \<or>
             r \<in> set (getUserConversations (userId c) e)"
    using set_update_subset_insert by fastforce
  then show ?thesis by (auto dest: getUserConversations_owner simp: spread_update_def)
qed

lemma getUserConversations_after_save:
  assumes "hasWindow e"
  shows "\<exists>cs'. chatkit_conversations (saveConversation t1 t2 c e) = Parsed cs' \<and>
     getUserConversations (userId c) (saveConversation t1 t2 c e) = cs'"
proof -
  from saveConversation_stored [OF assms, of t1 t2 c] obtain cs' where
    p: "chatkit_conversations (saveConversation t1 t2 c e) = Parsed cs'" by blast
  have "\<forall>r\<in>set cs'. userId r = userId c"
    using saveConversation_all_owner [OF assms p] by blast
  then have "filter (\<lambda>conv. userId conv = userId c) cs' = cs'" by (simp add: filter_id_conv)
  with p assms show ?thesis
    by (simp add: getUserConversations_def saveConversation_hasWindow)
qed

text \<open>The ids of the user's conversations after a save: the id saved is appended when
  it was not there, and the list of ids is unchanged when it was.\<close>

lemma ids_after_save:
  assumes "hasWindow e"
  shows "map conv_id (getUserConversations (userId c) (saveConversation t1 t2 c e)) =
    (if conv_id c \<in> set (map conv_id (getUserConversations (userId c) e))
     then map conv_id (getUserConversations (userId c) e)
     else map conv_id (getUserConversations (userId c) e) @ [conv_id c])"
proof -
  let ?ex = "getUserConversations (userId c) e"
  from getUserConversations_after_save [OF assms, of t1 t2 c]
    saveConversation_stored [OF assms, of t1 t2 c]
  have eq: "getUserConversations (userId c) (saveConversation t1 t2 c e) =
    (case findIndex (\<lambda>conv. conv_id conv = conv_id c) ?ex of
       Some i \<Rightarrow> ?ex [i := spread_update (?ex ! i) c t1]
     | None \<Rightarrow> ?ex @ [if createdAt c \<noteq> [] then c \<lparr> updatedAt := t1 \<rparr>
                      else c \<lparr> createdAt := t1, updatedAt := t2 \<rparr>])"
    by auto
  show ?thesis
  proof (cases "findIndex (\<lambda>conv. conv_id conv = conv_id c) ?ex")
    case None
    then have "conv_id c \<notin> set (map conv_id ?ex)" by (auto simp: findIndex_None)
    with None eq show ?thesis by simp
  next
    case (Some i)
    then have i: "i < length ?ex" "conv_id (?ex ! i) = conv_id c"
      by (auto dest: findIndex_Some)
    then have "conv_id c \<in> set (map conv_id ?ex)" by (metis nth_mem image_eqI set_map)
    moreover have "map conv_id (?ex [i := spread_update (?ex ! i) c t1]) = map conv_id ?ex"
      using i by (simp add: map_update spread_update_def list_update_same_conv)
    ultimately show ?thesis using Some eq by simp
  qed
qed

lemma getUserConversations_save:
  assumes "hasWindow e"
  shows "getUserConversations (userId c) (saveConversation t1 t2 c e) =
    (case findIndex (\<lambda>conv. conv_id conv = conv_id c) (getUserConversations (userId c) e) of
       Some i \<Rightarrow> (getUserConversations (userId c) e)
                   [i := spread_update (getUserConversations (userId c) e ! i) c t1]
     | None \<Rightarrow> getUserConversations (userId c) e @
                 [if createdAt c \<noteq> [] then c \<lparr> updatedAt := t1 \<rparr>
                  else c \<lparr> createdAt := t1, updatedAt := t2 \<rparr>])"
  using getUserConversations_after_save [OF assms, of t1 t2 c]
    saveConversation_stored [OF assms, of t1 t2 c]
  by auto

lemma count_update_same:
  "i < length xs \<Longrightarrow> P (xs ! i) \<Longrightarrow> P y \<Longrightarrow>
   length (filter P (xs [i := y])) = length (filter P xs)"
  by (induction xs arbitrary: i) (auto split: nat.splits)

text \<open>A save leaves one record with the saved id when there was none, and as many as
  there were otherwise.\<close>

lemma count_after_save:
  assumes "hasWindow e"
  shows "length (filter (\<lambda>r. conv_id r = conv_id c)
           (getUserConversations (userId c) (saveConversation t1 t2 c e))) =
         max 1 (length (filter (\<lambda>r. conv_id r = conv_id c) (getUserConversations (userId c) e)))"
proof (cases "findIndex (\<lambda>conv. conv_id conv = conv_id c) (getUserConversations (userId c) e)")
  case None
  then have "filter (\<lambda>r. conv_id r = conv_id c) (getUserConversations (userId c) e) = []"
    by (simp add: findIndex_None filter_empty_conv)
  with None show ?thesis
    by (simp add: getUserConversations_save [OF assms])
next
  case (Some i)
  let ?ex = "getUserConversations (userId c) e"
  from Some have i: "i < length ?ex" "conv_id (?ex ! i) = conv_id c"
    by (auto dest: findIndex_Some)
  then have "?ex ! i \<in> set (filter (\<lambda>r. conv_id r = conv_id c) ?ex)" by simp
  then have "length (filter (\<lambda>r. conv_id r = conv_id c) ?ex) \<ge> 1"
    by (metis One_nat_def Suc_leI length_pos_if_in_set)
  moreover have "length (filter (\<lambda>r. conv_id r = conv_id c)
      (?ex [i := spread_update (?ex ! i) c t1])) = length (filter (\<lambda>r. conv_id r = conv_id c) ?ex)"
    using i by (intro count_update_same) (simp_all add: spread_update_def)
  ultimately show ?thesis using Some
    by (simp add: getUserConversations_save [OF assms])
qed

text \<open>A save keeps the ids of the user's conversations distinct.\<close>

lemma saveConversation_keeps_ids_distinct:
  assumes "hasWindow e" and "distinct (map conv_id (getUserConversations (userId c) e))"
  shows "distinct (map conv_id (getUserConversations (userId c) (saveConversation t1 t2 c e)))"
  using assms by (simp add: ids_after_save)

text \<open>No operation of the module stores the empty string as the current conversation.\<close>

lemma current_conversation_never_empty:
  assumes "chatkit_current_conversation e \<noteq> Some []"
  shows "chatkit_current_conversation (setCurrentConversationId i e) \<noteq> Some []"
    and "chatkit_current_conversation (saveConversation t1 t2 c e) \<noteq> Some []"
    and "chatkit_current_conversation (removeConversation k u e) \<noteq> Some []"
    and "chatkit_current_conversation (clearUserConversations u e) \<noteq> Some []"
proof -
  show "chatkit_current_conversation (setCurrentConversationId i e) \<noteq> Some []"
    using assms by (simp add: setCurrentConversationId_def split: option.splits)
  show "chatkit_current_conversation (saveConversation t1 t2 c e) \<noteq> Some []"
    using assms by (simp add: saveConversation_def Let_def split: option.splits)
  show "chatkit_current_conversation (removeConversation k u e) \<noteq> Some []"
    using assms by (simp add: removeConversation_def Let_def split: stored.splits)
  show "chatkit_current_conversation (clearUserConversations u e) \<noteq> Some []"
    using assms
    by (simp add: clearUserConversations_def getCurrentConversationId_def
        setCurrentConversationId_def Let_def split: stored.splits option.splits)
qed

text \<open>
  C4. In an environment with storage whose store parses to a list, \<open>saveConversation(c)\<close>
  writes back the conversations of \<open>c.userId\<close> with \<open>c\<close> upserted: every record written
  has the user id of \<open>c\<close>, so that no record of another user is left in the store; a
  record with the id of \<open>c\<close> is there; and the user's records with other ids are the
  ones the store had.
\<close>

theorem saveConversation_writes_only_owner_records:
  assumes "hasWindow e" and "chatkit_conversations e = Parsed cs"
  shows "\<exists>cs'. chatkit_conversations (saveConversation t1 t2 c e) = Parsed cs' \<and>
      list_all (\<lambda>r. userId r = userId c) cs' \<and>
      (\<forall>r\<in>set cs. userId r \<noteq> userId c \<longrightarrow> r \<notin> set cs') \<and>
      list_ex (\<lambda>r. conv_id r = conv_id c) cs' \<and>
      filter (\<lambda>r. conv_id r \<noteq> conv_id c) cs' =
        filter (\<lambda>r. conv_id r \<noteq> conv_id c) (filter (\<lambda>r. userId r = userId c) cs)"
proof -
  let ?ex = "getUserConversations (userId c) e"
  have ex: "?ex = filter (\<lambda>r. userId r = userId c) cs"
    using assms by (rule getUserConversations_Parsed)
  from getUserConversations_after_save [OF assms(1), of t1 t2 c] obtain cs' where
    p: "chatkit_conversations (saveConversation t1 t2 c e) = Parsed cs'" and
    g: "getUserConversations (userId c) (saveConversation t1 t2 c e) = cs'" by blast
  have own: "\<forall>r\<in>set cs'. userId r = userId c"
    using saveConversation_all_owner [OF assms(1) p] by blast
  have ids: "conv_id c \<in> set (map conv_id cs')"
    using ids_after_save [OF assms(1), of c t1 t2] g by (simp split: if_splits)
  have rest: "filter (\<lambda>r. conv_id r \<noteq> conv_id c) cs' =
      filter (\<lambda>r. conv_id r \<noteq> conv_id c) ?ex"
  proof (cases "findIndex (\<lambda>conv. conv_id conv = conv_id c) ?ex")
    case None
    with p saveConversation_stored [OF assms(1), of t1 t2 c] show ?thesis by auto
  next
    case (Some i)
    then have i: "i < length ?ex" "conv_id (?ex ! i) = conv_id c"
      by (auto dest: findIndex_Some)
    from Some p saveConversation_stored [OF assms(1), of t1 t2 c]
    have "cs' = ?ex [i := spread_update (?ex ! i) c t1]" by simp
    with i show ?thesis by (simp add: filter_update_out spread_update_def)
  qed
  from own have a: "list_all (\<lambda>r. userId r = userId c) cs'" by (simp add: list_all_iff)
  from own have b: "\<forall>r\<in>set cs. userId r \<noteq> userId c \<longrightarrow> r \<notin> set cs'" by blast
  from ids have c: "list_ex (\<lambda>r. conv_id r = conv_id c) cs'" by (auto simp: list_ex_iff)
  from p a b c rest ex show ?thesis by simp
qed

theorem saveConversation_writes_only_owner_records_witness:
  "hasWindow example_env \<and>
   chatkit_conversations example_env =
     Parsed [example_conversation ''c1'' ''alice'', example_conversation ''c2'' ''bob''] \<and>
   userId (example_conversation ''c2'' ''bob'') \<noteq> userId (example_conversation ''c3'' ''alice'') \<and>
   (\<exists>cs'. chatkit_conversations
       (saveConversation ''t1'' ''t2'' (example_conversation ''c3'' ''alice'') example_env) =
         Parsed cs' \<and>
      list_all (\<lambda>r. userId r = userId (example_conversation ''c3'' ''alice'')) cs' \<and>
      example_conversation ''c2'' ''bob'' \<notin> set cs' \<and>
      list_ex (\<lambda>r. conv_id r = conv_id (example_conversation ''c3'' ''alice'')) cs')"
proof -
  have h1: "hasWindow example_env"
    by (simp add: example_env_def)
  have h2: "chatkit_conversations example_env =
     Parsed [example_conversation ''c1'' ''alice'', example_conversation ''c2'' ''bob'']"
    by (simp add: example_env_def)
  have h3: "userId (example_conversation ''c2'' ''bob'') \<noteq>
      userId (example_conversation ''c3'' ''alice'')"
    by (simp add: example_conversation_def)
  have m: "example_conversation ''c2'' ''bob'' \<in>
      set [example_conversation ''c1'' ''alice'', example_conversation ''c2'' ''bob'']"
    by (simp only: list.set insert_iff simp_thms)
  from saveConversation_writes_only_owner_records
    [OF h1 h2, of "''t1''" "''t2''" "example_conversation ''c3'' ''alice''"]
  obtain cs' where
    p: "chatkit_conversations
       (saveConversation ''t1'' ''t2'' (example_conversation ''c3'' ''alice'') example_env) =
         Parsed cs'" and
    a: "list_all (\<lambda>r. userId r = userId (example_conversation ''c3'' ''alice'')) cs'" and
    b: "\<forall>r\<in>set [example_conversation ''c1'' ''alice'', example_conversation ''c2'' ''bob''].
          userId r \<noteq> userId (example_conversation ''c3'' ''alice'') \<longrightarrow> r \<notin> set cs'" and
    c: "list_ex (\<lambda>r. conv_id r = conv_id (example_conversation ''c3'' ''alice'')) cs'"
    by (elim exE conjE)
  have nb: "example_conversation ''c2'' ''bob'' \<notin> set cs'"
    by (rule mp [OF bspec [OF b m] h3])
  from p a nb c have ex: "\<exists>cs'. chatkit_conversations
       (saveConversation ''t1'' ''t2'' (example_conversation ''c3'' ''alice'') example_env) =
         Parsed cs' \<and>
      list_all (\<lambda>r. userId r = userId (example_conversation ''c3'' ''alice'')) cs' \<and>
      example_conversation ''c2'' ''bob'' \<notin> set cs' \<and>
      list_ex (\<lambda>r. conv_id r = conv_id (example_conversation ''c3'' ''alice'')) cs'"
    by (intro exI [of _ cs'] conjI)
  from h1 h2 h3 ex show ?thesis by (intro conjI)
qed

text \<open>
  C9. In an environment with storage in which at most one of the user's stored
  conversations has the id (the data model's unique id per user), saving twice with the
  same \<open>id\<close>, \<open>userId\<close> and \<open>title\<close> leaves exactly one record with that id among the
  user's conversations, and the second call appends nothing: the user has as many
  conversations after it as before it.
\<close>

theorem saveConversation_twice_one_record:
  assumes "hasWindow e"
    and "length (filter (\<lambda>r. conv_id r = conv_id c) (getUserConversations (userId c) e)) \<le> 1"
    and "conv_id c' = conv_id c" and "userId c' = userId c" and "title c' = title c"
  shows "length (filter (\<lambda>r. conv_id r = conv_id c)
           (getUserConversations (userId c)
              (saveConversation t3 t4 c' (saveConversation t1 t2 c e)))) = 1 \<and>
         length (getUserConversations (userId c)
              (saveConversation t3 t4 c' (saveConversation t1 t2 c e))) =
         length (getUserConversations (userId c) (saveConversation t1 t2 c e))"
proof -
  let ?e1 = "saveConversation t1 t2 c e"
  let ?e2 = "saveConversation t3 t4 c' ?e1"
  have w1: "hasWindow ?e1" using assms(1) by (simp add: saveConversation_hasWindow)
  have n1: "length (filter (\<lambda>r. conv_id r = conv_id c) (getUserConversations (userId c) ?e1)) = 1"
    using count_after_save [OF assms(1), of c t1 t2] assms(2) by simp
  have n2: "length (filter (\<lambda>r. conv_id r = conv_id c) (getUserConversations (userId c) ?e2)) = 1"
    using count_after_save [OF w1, of c' t3 t4] n1 assms(3,4) by simp
  have ids1: "conv_id c \<in> set (map conv_id (getUserConversations (userId c) ?e1))"
    using ids_after_save [OF assms(1), of c t1 t2] by (simp split: if_splits)
  have ids2: "map conv_id (getUserConversations (userId c) ?e2) =
      map conv_id (getUserConversations (userId c) ?e1)"
    using ids_after_save [OF w1, of c' t3 t4] ids1 assms(3,4) by simp
  have "length (getUserConversations (userId c) ?e2) =
      length (getUserConversations (userId c) ?e1)"
    using ids2 by (metis length_map)
  with n2 show ?thesis by (intro conjI)
qed

theorem saveConversation_twice_one_record_witness:
  "hasWindow example_env \<and>
   length (filter (\<lambda>r. conv_id r = conv_id (example_conversation ''c1'' ''alice''))
     (getUserConversations (userId (example_conversation ''c1'' ''alice'')) example_env)) \<le> 1 \<and>
   length (filter (\<lambda>r. conv_id r = conv_id (example_conversation ''c1'' ''alice''))
     (getUserConversations (userId (example_conversation ''c1'' ''alice''))
        (saveConversation ''t3'' ''t4'' (example_conversation ''c1'' ''alice'')
           (saveConversation ''t1'' ''t2'' (example_conversation ''c1'' ''alice'')
              example_env)))) = 1"
proof -
  have h1: "hasWindow example_env"
    by (simp add: example_env_def)
  have h2: "length (filter (\<lambda>r. conv_id r = conv_id (example_conversation ''c1'' ''alice''))
     (getUserConversations (userId (example_conversation ''c1'' ''alice'')) example_env)) \<le> 1"
    by (simp add: example_env_def example_conversation_def getUserConversations_def)
  have r: "length (filter (\<lambda>r. conv_id r = conv_id (example_conversation ''c1'' ''alice''))
     (getUserConversations (userId (example_conversation ''c1'' ''alice''))
        (saveConversation ''t3'' ''t4'' (example_conversation ''c1'' ''alice'')
           (saveConversation ''t1'' ''t2'' (example_conversation ''c1'' ''alice'')
              example_env)))) = 1"
    by (rule conjunct1 [OF saveConversation_twice_one_record [OF h1 h2 refl refl refl]])
  from h1 h2 r show ?thesis by (intro conjI)
qed

text \<open>
  C8. In an environment with storage whose current-conversation pointer, when set, is a
  non-empty id (the only kind \<open>setCurrentConversationId\<close> stores), after
  \<open>clearUserConversations(u)\<close> the call \<open>getUserConversations(u)\<close> returns the empty
  list, every other user's conversations are what they were, and if the pointer was the
  id of one of the conversations of \<open>u\<close> it is cleared.
\<close>

theorem clearUserConversations_clears_user_only:
  assumes "hasWindow e" and "chatkit_current_conversation e \<noteq> Some []"
  shows "getUserConversations u (clearUserConversations u e) = [] \<and>
     (\<forall>v. v \<noteq> u \<longrightarrow>
        getUserConversations v (clearUserConversations u e) = getUserConversations v e) \<and>
     (list_ex (\<lambda>conv. chatkit_current_conversation e = Some (conv_id conv))
        (getUserConversations u e) \<longrightarrow>
        chatkit_current_conversation (clearUserConversations u e) = None)"
proof (cases "chatkit_conversations e")
  case Absent
  with assms show ?thesis
    by (auto simp: clearUserConversations_def getUserConversations_def
        getCurrentConversationId_def setCurrentConversationId_def Let_def
        split: option.splits)
next
  case Corrupt
  with assms show ?thesis
    by (auto simp: clearUserConversations_def getUserConversations_def)
next
  case (Parsed cs)
  have cleared: "getUserConversations u (clearUserConversations u e) = []"
    using assms Parsed
    by (auto simp: clearUserConversations_def getUserConversations_def
        getCurrentConversationId_def setCurrentConversationId_def Let_def filter_empty_conv
        split: option.splits)
  have others: "\<forall>v. v \<noteq> u \<longrightarrow>
      getUserConversations v (clearUserConversations u e) = getUserConversations v e"
    using assms Parsed
    by (auto simp: clearUserConversations_def getUserConversations_def
        getCurrentConversationId_def setCurrentConversationId_def Let_def
        split: option.splits intro: filter_cong)
  have pointer: "list_ex (\<lambda>conv. chatkit_current_conversation e = Some (conv_id conv))
        (getUserConversations u e) \<longrightarrow>
      chatkit_current_conversation (clearUserConversations u e) = None"
  proof
    assume "list_ex (\<lambda>conv. chatkit_current_conversation e = Some (conv_id conv))
        (getUserConversations u e)"
    then obtain conv where cv: "conv \<in> set cs" "userId conv = u"
        "chatkit_current_conversation e = Some (conv_id conv)"
      using assms Parsed by (auto simp: list_ex_iff getUserConversations_def)
    with assms have ne: "conv_id conv \<noteq> []" by auto
    from cv have "find (\<lambda>x. conv_id x = conv_id conv \<and> userId x = u) cs \<noteq> None"
      by (auto simp: find_None_iff)
    with cv ne assms Parsed
    show "chatkit_current_conversation (clearUserConversations u e) = None"
      by (auto simp: clearUserConversations_def getCurrentConversationId_def
          setCurrentConversationId_def Let_def split: option.splits)
  qed
  from cleared others pointer show ?thesis by blast
qed

theorem clearUserConversations_clears_user_only_witness:
  "hasWindow example_env \<and> chatkit_current_conversation example_env \<noteq> Some [] \<and>
   ''bob'' \<noteq> ''alice'' \<and>
   list_ex (\<lambda>conv. chatkit_current_conversation example_env = Some (conv_id conv))
     (getUserConversations ''alice'' example_env) \<and>
   getUserConversations ''alice'' (clearUserConversations ''alice'' example_env) = [] \<and>
   getUserConversations ''bob'' (clearUserConversations ''alice'' example_env) =
     getUserConversations ''bob'' example_env \<and>
   getUserConversations ''bob'' example_env = [example_conversation ''c2'' ''bob''] \<and>
   chatkit_current_conversation (clearUserConversations ''alice'' example_env) = None"
proof -
  have h1: "hasWindow example_env"
    by (simp add: example_env_def)
  have h2: "chatkit_current_conversation example_env \<noteq> Some []"
    by (simp add: example_env_def)
  have h3: "''bob'' \<noteq> ''alice''"
    by simp
  have h4: "list_ex (\<lambda>conv. chatkit_current_conversation example_env = Some (conv_id conv))
     (getUserConversations ''alice'' example_env)"
    by (simp add: example_env_def example_conversation_def getUserConversations_def)
  have h5: "getUserConversations ''bob'' example_env = [example_conversation ''c2'' ''bob'']"
    by (simp add: example_env_def example_conversation_def getUserConversations_def)
  note t = clearUserConversations_clears_user_only [OF h1 h2, of "''alice''"]
  have a: "getUserConversations ''alice'' (clearUserConversations ''alice'' example_env) = []"
    by (rule conjunct1 [OF t])
  have b: "getUserConversations ''bob'' (clearUserConversations ''alice'' example_env) =
     getUserConversations ''bob'' example_env"
    by (rule mp [OF spec [OF conjunct1 [OF conjunct2 [OF t]]] h3])
  have c: "chatkit_current_conversation (clearUserConversations ''alice'' example_env) = None"
    by (rule mp [OF conjunct2 [OF conjunct2 [OF t]] h4])
  from h1 h2 h3 h4 a b h5 c show ?thesis by (intro conjI)
qed

section \<open>Properties of the request clients\<close>

lemma show_nat_401: "show_nat 401 = ''401''"
  by code_simp

text \<open>\<open>ReminderClient.request\<close> clears the auth store on a response of status 401.\<close>

lemma request_401_clears_auth:
  "status r = 401 \<Longrightarrow>
   request (\<lambda>url hs. Response r) b ep mh e =
     (clearAuth e, Inl (Error ''Authentication failed. Please log in again.''))"
  by (simp add: request_def ok_def Let_def split: option.splits)

lemma clearAuth_clears:
  "hasWindow e \<Longrightarrow> getToken (clearAuth e) = None \<and> user (clearAuth e) = None"
  by (simp add: clearAuth_def getToken_def)

text \<open>
  C3 at \<open>ChatAPIClient.sendMessage\<close> with a response of status 401: the error is thrown
  and the token and the user are still in the store.
\<close>

theorem sendMessage_401_keeps_auth:
  "sendMessage (\<lambda>url hs. Response \<lparr> status = 401, json = None \<rparr>)
       ''http://localhost:8000'' ''alice'' example_env =
     (example_env, Inl (Error ''HTTP error! status: 401'')) \<and>
   getToken example_env = Some ''jwt'' \<and> user example_env = Some ''alice''"
  using show_nat_401
  by (simp add: sendMessage_def getToken_def ok_def example_env_def)

end
